theory Spec2Isabelle
  imports Complex_Main "HOL-Library.Multiset"
begin

section \<open>ZenBudget: transaction state, persistence and derived views\<close>

text \<open>
  A shallow embedding of \<^verbatim>\<open>script.js\<close>: the module-level state (\<^verbatim>\<open>transactions\<close>,
  \<^verbatim>\<open>filteredTransactions\<close>, \<^verbatim>\<open>db\<close>), the IndexedDB adapter functions, the event
  handlers that mutate the state, and the two aggregation functions. DOM rendering is
  left out; what a handler tells the user (alert, notification) is its result value.
\<close>

subsection \<open>JavaScript numbers\<close>

text \<open>
  A JavaScript number is NaN, an infinity or a finite value; finite values are
  rationals here. Arithmetic overflows as IEEE doubles do: a result whose magnitude
  reaches \<open>2^1024 - 2^970\<close>, the least value that rounds to an infinity, is that
  infinity. Below that bound the exact result is kept, so the rounding of a finite
  result to the nearest double is not modelled, and no statement below rests on a sum,
  product or quotient being exact. \<^verbatim>\<open>-0\<close> is the same value as \<^verbatim>\<open>0\<close> (no operation below
  divides by a zero).
\<close>

datatype number = NaN | NegInfinity | Finite rat | Infinity

definition overflow_threshold :: rat where
  "overflow_threshold = 2 ^ 1024 - 2 ^ 970"

definition finite_result :: "rat \<Rightarrow> number" where
  "finite_result r =
     (if overflow_threshold \<le> r then Infinity
      else if r \<le> - overflow_threshold then NegInfinity
      else Finite r)"

fun isNaN :: "number \<Rightarrow> bool" where
  "isNaN NaN = True"
| "isNaN _ = False"

text \<open>\<^verbatim>\<open>a >= b\<close> and \<^verbatim>\<open>a > b\<close>: false as soon as one side is NaN.\<close>

fun num_ge :: "number \<Rightarrow> number \<Rightarrow> bool" where
  "num_ge NaN _ = False"
| "num_ge _ NaN = False"
| "num_ge Infinity _ = True"
| "num_ge _ NegInfinity = True"
| "num_ge NegInfinity _ = False"
| "num_ge _ Infinity = False"
| "num_ge (Finite a) (Finite b) = (b \<le> a)"

fun num_gt :: "number \<Rightarrow> number \<Rightarrow> bool" where
  "num_gt NaN _ = False"
| "num_gt _ NaN = False"
| "num_gt _ Infinity = False"
| "num_gt NegInfinity _ = False"
| "num_gt Infinity _ = True"
| "num_gt _ NegInfinity = True"
| "num_gt (Finite a) (Finite b) = (b < a)"

fun num_neg :: "number \<Rightarrow> number" where
  "num_neg NaN = NaN"
| "num_neg NegInfinity = Infinity"
| "num_neg Infinity = NegInfinity"
| "num_neg (Finite a) = Finite (- a)"

fun num_abs :: "number \<Rightarrow> number" where
  "num_abs NaN = NaN"
| "num_abs NegInfinity = Infinity"
| "num_abs Infinity = Infinity"
| "num_abs (Finite a) = Finite \<bar>a\<bar>"

fun num_add :: "number \<Rightarrow> number \<Rightarrow> number" where
  "num_add NaN _ = NaN"
| "num_add _ NaN = NaN"
| "num_add Infinity NegInfinity = NaN"
| "num_add NegInfinity Infinity = NaN"
| "num_add Infinity _ = Infinity"
| "num_add _ Infinity = Infinity"
| "num_add NegInfinity _ = NegInfinity"
| "num_add _ NegInfinity = NegInfinity"
| "num_add (Finite a) (Finite b) = finite_result (a + b)"

definition num_sub :: "number \<Rightarrow> number \<Rightarrow> number" where
  "num_sub a b = num_add a (num_neg b)"

text \<open>The sign of a non-NaN number: \<open>-1\<close>, \<open>0\<close> or \<open>1\<close>.\<close>

fun num_sgn :: "number \<Rightarrow> rat" where
  "num_sgn NaN = 0"
| "num_sgn NegInfinity = - 1"
| "num_sgn Infinity = 1"
| "num_sgn (Finite a) = sgn a"

definition signed_inf :: "rat \<Rightarrow> number" where
  "signed_inf s = (if s = 0 then NaN else if 0 < s then Infinity else NegInfinity)"

fun num_mul :: "number \<Rightarrow> number \<Rightarrow> number" where
  "num_mul NaN _ = NaN"
| "num_mul _ NaN = NaN"
| "num_mul (Finite a) (Finite b) = finite_result (a * b)"
| "num_mul a b = signed_inf (num_sgn a * num_sgn b)"

fun num_div :: "number \<Rightarrow> number \<Rightarrow> number" where
  "num_div NaN _ = NaN"
| "num_div _ NaN = NaN"
| "num_div (Finite a) (Finite b) =
     (if b = 0 then signed_inf (sgn a) else finite_result (a / b))"
| "num_div (Finite a) _ = Finite 0"
| "num_div a (Finite b) = signed_inf (num_sgn a * (if b < 0 then - 1 else 1))"
| "num_div _ _ = NaN"

subsection \<open>Strings\<close>

text \<open>
  Strings are Isabelle strings; the model covers ASCII text. \<^verbatim>\<open>trim\<close> strips the ASCII
  white space and line terminators (tab, line feed, vertical tab, form feed, carriage
  return, space) from both ends, \<^verbatim>\<open>toLowerCase\<close> maps \<^verbatim>\<open>A..Z\<close> to \<^verbatim>\<open>a..z\<close>, and
  \<^verbatim>\<open>includes\<close> is the substring test.
\<close>

definition isWhiteSpace :: "char \<Rightarrow> bool" where
  "isWhiteSpace c \<longleftrightarrow> (of_char c :: nat) \<in> {9, 10, 11, 12, 13, 32}"

definition trim :: "string \<Rightarrow> string" where
  "trim s = rev (dropWhile isWhiteSpace (rev (dropWhile isWhiteSpace s)))"

definition toLowerCase_char :: "char \<Rightarrow> char" where
  "toLowerCase_char c =
     (case map_of (zip ''ABCDEFGHIJKLMNOPQRSTUVWXYZ'' ''abcdefghijklmnopqrstuvwxyz'') c of
        None \<Rightarrow> c
      | Some l \<Rightarrow> l)"

definition toLowerCase :: "string \<Rightarrow> string" where
  "toLowerCase s = map toLowerCase_char s"

fun startsWith :: "string \<Rightarrow> string \<Rightarrow> bool" where
  "startsWith _ [] = True"
| "startsWith [] (_ # _) = False"
| "startsWith (c # s) (d # p) = (c = d \<and> startsWith s p)"

fun includes_str :: "string \<Rightarrow> string \<Rightarrow> bool" where
  "includes_str [] p = (p = [])"
| "includes_str (c # s) p = (startsWith (c # s) p \<or> includes_str s p)"

subsection \<open>Transactions and the application state\<close>

text \<open>
  The transaction object built by \<^verbatim>\<open>addTransaction\<close>. \<^verbatim>\<open>id\<close> is
  \<^verbatim>\<open>Date.now() + Math.random()\<close>, always finite. \<^verbatim>\<open>date\<close> is the string
  \<^verbatim>\<open>new Date().toISOString()\<close>; it stands here for the millisecond time value it
  denotes, which is what \<^verbatim>\<open>new Date(t.date)\<close> gives back.
\<close>

record transaction =
  id' :: rat
  name :: string
  amount :: number
  category :: string
  date :: int
  type :: string

text \<open>
  The object store \<^verbatim>\<open>transactions\<close> of the database, with key path \<^verbatim>\<open>id\<close>: its records
  in ascending key order, one record per key. \<^verbatim>\<open>db\<close> is \<open>None\<close> while the module
  variable is still undefined.
\<close>

type_synonym objectStore = "transaction list"

record state =
  transactions :: "transaction list"
  filteredTransactions :: "transaction list"
  db :: "objectStore option"

definition initial_state :: state where
  "initial_state = \<lparr>transactions = [], filteredTransactions = [], db = None\<rparr>"

fun store_put :: "transaction \<Rightarrow> objectStore \<Rightarrow> objectStore" where
  "store_put t [] = [t]"
| "store_put t (r # rs) =
     (if id' t < id' r then t # r # rs
      else if id' t = id' r then t # rs
      else r # store_put t rs)"

definition store_delete :: "rat \<Rightarrow> objectStore \<Rightarrow> objectStore" where
  "store_delete k rs = filter (\<lambda>r. id' r \<noteq> k) rs"

subsection \<open>The IndexedDB adapter\<close>

text \<open>
  Each adapter function returns a promise. It rejects at once when \<^verbatim>\<open>db\<close> is not set;
  otherwise it issues one request, and the browser answers with \<^verbatim>\<open>onsuccess\<close> or
  \<^verbatim>\<open>onerror\<close>. That answer is an input of the model. A request that errors aborts its
  IndexedDB transaction, so the store keeps its contents.
\<close>

datatype request_result = onsuccess | onerror

datatype store_error = NotInitialized | RequestError

definition saveTransaction ::
  "request_result \<Rightarrow> transaction \<Rightarrow> state \<Rightarrow> (store_error + unit) \<times> state" where
  "saveTransaction req t st =
     (case db st of
        None \<Rightarrow> (Inl NotInitialized, st)
      | Some rs \<Rightarrow>
          (case req of
             onsuccess \<Rightarrow> (Inr (), st\<lparr>db := Some (store_put t rs)\<rparr>)
           | onerror \<Rightarrow> (Inl RequestError, st)))"

definition deleteTransaction ::
  "request_result \<Rightarrow> rat \<Rightarrow> state \<Rightarrow> (store_error + unit) \<times> state" where
  "deleteTransaction req k st =
     (case db st of
        None \<Rightarrow> (Inl NotInitialized, st)
      | Some rs \<Rightarrow>
          (case req of
             onsuccess \<Rightarrow> (Inr (), st\<lparr>db := Some (store_delete k rs)\<rparr>)
           | onerror \<Rightarrow> (Inl RequestError, st)))"

definition clearAllTransactionsFromDB ::
  "request_result \<Rightarrow> state \<Rightarrow> (store_error + unit) \<times> state" where
  "clearAllTransactionsFromDB req st =
     (case db st of
        None \<Rightarrow> (Inl NotInitialized, st)
      | Some rs \<Rightarrow>
          (case req of
             onsuccess \<Rightarrow> (Inr (), st\<lparr>db := Some []\<rparr>)
           | onerror \<Rightarrow> (Inl RequestError, st)))"

subsection \<open>Adding a transaction\<close>

text \<open>
  What a handler reports to the user; the handlers return no value of their own, so
  this report is their result in the model. \<open>ValidationError\<close> is the alert
  \<^verbatim>\<open>'Please fill in all fields correctly.'\<close> followed by the early return;
  \<open>StoreError e\<close> is the \<^verbatim>\<open>catch\<close> block, which receives the rejection \<open>e\<close> of the adapter,
  logs it and shows the error notification. \<open>Inr\<close> is the success notification.
\<close>

datatype error = ValidationError | StoreError store_error

text \<open>
  \<^verbatim>\<open>addTransaction\<close>. The arguments \<open>nameRaw\<close> and \<open>cat\<close> are the values of the name and
  category fields, \<open>amnt\<close> is \<^verbatim>\<open>parseFloat(transactionAmountInput.value)\<close>. \<open>now\<close>, \<open>rnd\<close> and
  \<open>today\<close> are the values of \<^verbatim>\<open>Date.now()\<close>, \<^verbatim>\<open>Math.random()\<close> and \<^verbatim>\<open>new Date()\<close>, and
  \<open>req\<close> is the browser's answer to the \<^verbatim>\<open>put\<close> request.
\<close>

definition typeOf :: "number \<Rightarrow> string" where
  "typeOf a = (if num_ge a (Finite 0) then ''income'' else ''expense'')"

definition addTransaction ::
  "int \<Rightarrow> rat \<Rightarrow> int \<Rightarrow> request_result \<Rightarrow> string \<Rightarrow> number \<Rightarrow> string \<Rightarrow> state
     \<Rightarrow> (error + transaction) \<times> state" where
  "addTransaction now rnd today req nameRaw amnt cat st =
     (let nm = trim nameRaw in
      if nm = [] \<or> isNaN amnt \<or> cat = [] then (Inl ValidationError, st)
      else
        let t = \<lparr>id' = of_int now + rnd, name = nm, amount = amnt, category = cat,
                 date = today, type = typeOf amnt\<rparr>
        in case saveTransaction req t st of
             (Inl e, st') \<Rightarrow> (Inl (StoreError e), st')
           | (Inr _, st') \<Rightarrow>
               (Inr t, st'\<lparr>transactions := t # transactions st',
                           filteredTransactions := t # transactions st'\<rparr>))"

text \<open>
  The promise that the async function \<^verbatim>\<open>addTransaction\<close> returns to its caller; as for the
  adapter, \<open>Inr ()\<close> is a promise that resolves and \<open>Inl e\<close> one that rejects with \<open>e\<close>.
  The function ends by the early return, at the end of the \<^verbatim>\<open>try\<close> block, or at the end
  of the \<^verbatim>\<open>catch\<close> block, which logs the error, shows the notification and does not
  throw again.
\<close>

definition addTransaction_promise ::
  "int \<Rightarrow> rat \<Rightarrow> int \<Rightarrow> request_result \<Rightarrow> string \<Rightarrow> number \<Rightarrow> string \<Rightarrow> state
     \<Rightarrow> store_error + unit" where
  "addTransaction_promise now rnd today req nameRaw amnt cat st =
     (let nm = trim nameRaw in
      if nm = [] \<or> isNaN amnt \<or> cat = [] then Inr ()
      else
        let t = \<lparr>id' = of_int now + rnd, name = nm, amount = amnt, category = cat,
                 date = today, type = typeOf amnt\<rparr>
        in case fst (saveTransaction req t st) of
             Inl e \<Rightarrow> Inr ()
           | Inr _ \<Rightarrow> Inr ())"

subsection \<open>Opening and loading\<close>

text \<open>
  \<^verbatim>\<open>initIndexedDB\<close>: on success \<^verbatim>\<open>db\<close> is the opened database, whose object store holds
  what earlier sessions persisted (\<open>persisted\<close>, empty on first use, when
  \<^verbatim>\<open>onupgradeneeded\<close> creates the store). On error the promise rejects.
\<close>

definition initIndexedDB ::
  "request_result \<Rightarrow> objectStore \<Rightarrow> state \<Rightarrow> (store_error + unit) \<times> state" where
  "initIndexedDB req persisted st =
     (case req of
        onsuccess \<Rightarrow> (Inr (), st\<lparr>db := Some persisted\<rparr>)
      | onerror \<Rightarrow> (Inl RequestError, st))"

text \<open>
  The comparator of \<^verbatim>\<open>loadTransactions\<close>, \<^verbatim>\<open>new Date(b.date) - new Date(a.date)\<close>, and
  \<^verbatim>\<open>Array.prototype.sort\<close>. The sort is stable, and for a comparator that is a
  consistent ordering its result is determined: it is the one that inserting the
  elements from the right, each before the first element it does not follow, builds.
\<close>

definition byDateDesc :: "transaction \<Rightarrow> transaction \<Rightarrow> int" where
  "byDateDesc a b = date b - date a"

fun insert_by :: "('a \<Rightarrow> 'a \<Rightarrow> int) \<Rightarrow> 'a \<Rightarrow> 'a list \<Rightarrow> 'a list" where
  "insert_by cmp x [] = [x]"
| "insert_by cmp x (y # ys) =
     (if cmp x y \<le> 0 then x # y # ys else y # insert_by cmp x ys)"

definition array_sort :: "('a \<Rightarrow> 'a \<Rightarrow> int) \<Rightarrow> 'a list \<Rightarrow> 'a list" where
  "array_sort cmp xs = foldr (insert_by cmp) xs []"

text \<open>
  \<^verbatim>\<open>loadTransactions\<close>. When the \<^verbatim>\<open>getAll\<close> request errors it empties both lists and
  rejects. Its guard for a missing database handle empties both lists and resolves.
\<close>

definition loadTransactions ::
  "request_result \<Rightarrow> state \<Rightarrow> (store_error + unit) \<times> state" where
  "loadTransactions req st =
     (case db st of
        None \<Rightarrow> (Inr (), st\<lparr>transactions := [], filteredTransactions := []\<rparr>)
      | Some rs \<Rightarrow>
          (case req of
             onsuccess \<Rightarrow>
               (let ts = array_sort byDateDesc rs
                in (Inr (), st\<lparr>transactions := ts, filteredTransactions := ts\<rparr>))
           | onerror \<Rightarrow>
               (Inl RequestError, st\<lparr>transactions := [], filteredTransactions := []\<rparr>)))"


subsection \<open>Filtering, deleting, clearing\<close>

text \<open>\<^verbatim>\<open>filterTransactions\<close>; \<open>query\<close> is \<^verbatim>\<open>searchInput.value\<close>.\<close>

definition matches :: "string \<Rightarrow> transaction \<Rightarrow> bool" where
  "matches searchTerm t \<longleftrightarrow>
     includes_str (toLowerCase (name t)) searchTerm \<or>
     includes_str (toLowerCase (category t)) searchTerm \<or>
     includes_str (toLowerCase (type t)) searchTerm"

definition filterTransactions :: "string \<Rightarrow> state \<Rightarrow> state" where
  "filterTransactions query st =
     (let searchTerm = trim (toLowerCase query) in
      if searchTerm = [] then st\<lparr>filteredTransactions := transactions st\<rparr>
      else st\<lparr>filteredTransactions := filter (matches searchTerm) (transactions st)\<rparr>)"

text \<open>
  The click listener that \<^verbatim>\<open>renderTransactions\<close> attaches to the delete button of a
  rendered transaction with id \<open>k\<close>. \<open>confirmed\<close> is the answer to the \<^verbatim>\<open>confirm\<close>
  dialog; when it is declined nothing happens and nothing is reported (\<open>None\<close>).
\<close>

definition deleteButton_onclick ::
  "bool \<Rightarrow> request_result \<Rightarrow> rat \<Rightarrow> state \<Rightarrow> (error + unit) option \<times> state" where
  "deleteButton_onclick confirmed req k st =
     (if confirmed then
        (case deleteTransaction req k st of
           (Inl e, st') \<Rightarrow> (Some (Inl (StoreError e)), st')
         | (Inr _, st') \<Rightarrow>
             (Some (Inr ()),
              st'\<lparr>transactions := filter (\<lambda>t. id' t \<noteq> k) (transactions st'),
                  filteredTransactions := filter (\<lambda>t. id' t \<noteq> k) (filteredTransactions st')\<rparr>))
      else (None, st))"

definition clearAllTransactions :: "request_result \<Rightarrow> state \<Rightarrow> (error + unit) \<times> state" where
  "clearAllTransactions req st =
     (case clearAllTransactionsFromDB req st of
        (Inl e, st') \<Rightarrow> (Inl (StoreError e), st')
      | (Inr _, st') \<Rightarrow> (Inr (), st'\<lparr>transactions := [], filteredTransactions := []\<rparr>))"

text \<open>
  The promise that the async function \<^verbatim>\<open>clearAllTransactions\<close> returns to its caller:
  the \<^verbatim>\<open>try\<close> block and the \<^verbatim>\<open>catch\<close> block both end normally.
\<close>

definition clearAllTransactions_promise :: "request_result \<Rightarrow> state \<Rightarrow> store_error + unit" where
  "clearAllTransactions_promise req st =
     (case fst (clearAllTransactionsFromDB req st) of
        Inl e \<Rightarrow> Inr ()
      | Inr _ \<Rightarrow> Inr ())"

subsection \<open>Runs of the application\<close>

text \<open>
  The operations a session consists of, each with the inputs of its handler and the
  browser's answer to its store request. An operation is one step here: the store
  request and, once it is answered, the update of the in-memory lists, which the code
  makes in one synchronous block after the \<^verbatim>\<open>await\<close>.
\<close>

datatype operation =
    Open request_result objectStore
  | Load request_result
  | Add int rat int request_result string number string
  | Remove bool request_result rat
  | ClearAll request_result
  | Filter string

fun apply_op :: "operation \<Rightarrow> state \<Rightarrow> state" where
  "apply_op (Open req persisted) st = snd (initIndexedDB req persisted st)"
| "apply_op (Load req) st = snd (loadTransactions req st)"
| "apply_op (Add now rnd today req nameRaw amnt cat) st =
     snd (addTransaction now rnd today req nameRaw amnt cat st)"
| "apply_op (Remove confirmed req k) st = snd (deleteButton_onclick confirmed req k st)"
| "apply_op (ClearAll req) st = snd (clearAllTransactions req st)"
| "apply_op (Filter query) st = filterTransactions query st"

definition run :: "operation list \<Rightarrow> state \<Rightarrow> state" where
  "run ops st = foldl (\<lambda>s op. apply_op op s) st ops"

text \<open>The filtered view shows only transactions of the authoritative list.\<close>

definition view_within :: "state \<Rightarrow> bool" where
  "view_within st \<longleftrightarrow> set (filteredTransactions st) \<subseteq> set (transactions st)"

subsection \<open>Totals\<close>

text \<open>
  \<^verbatim>\<open>updateBalance\<close>: the \<^verbatim>\<open>reduce\<close> over \<^verbatim>\<open>transactions\<close>, then the balance and the class
  added to the balance element (\<^verbatim>\<open>positive\<close>, \<^verbatim>\<open>negative\<close> or none). The currency
  formatting of the three displayed numbers is left out.
\<close>

record totals =
  income :: number
  expense :: number

definition totals_step :: "totals \<Rightarrow> transaction \<Rightarrow> totals" where
  "totals_step acc t =
     (if type t = ''income'' then acc\<lparr>income := num_add (income acc) (amount t)\<rparr>
      else acc\<lparr>expense := num_add (expense acc) (num_abs (amount t))\<rparr>)"

record balance_view =
  totalBalance :: number
  totalIncome :: number
  totalExpense :: number
  balanceClass :: "string option"

definition updateBalance :: "transaction list \<Rightarrow> balance_view" where
  "updateBalance ts =
     (let tot = foldl totals_step \<lparr>income = Finite 0, expense = Finite 0\<rparr> ts;
          bal = num_sub (income tot) (expense tot)
      in \<lparr>totalBalance = bal, totalIncome = income tot, totalExpense = expense tot,
          balanceClass = (if num_gt bal (Finite 0) then Some ''positive''
                          else if num_gt (Finite 0) bal then Some ''negative'' else None)\<rparr>)"

text \<open>The sum of a list of numbers, from the left, as \<^verbatim>\<open>reduce\<close> adds them.\<close>

definition num_sum :: "number list \<Rightarrow> number" where
  "num_sum ns = foldl num_add (Finite 0) ns"

subsection \<open>Spending summary\<close>

text \<open>
  \<^verbatim>\<open>updateSpendingSummary\<close> groups the expenses in the plain object \<^verbatim>\<open>categories = {}\<close>.
  The model of that object keeps what the grouping can observe of it:
  \<^item> a property value is a number, or a string that is not numeric (\<open>Str\<close>), which is
    what \<^verbatim>\<open>+=\<close> leaves behind once an operand is a function or an object;
  \<^item> reading a key that is not an own property gives the member of
    \<^verbatim>\<open>Object.prototype\<close> of that name (\<open>Obj\<close>) when there is one, else \<^verbatim>\<open>undefined\<close>;
  \<^item> assigning creates the own property after the existing ones or overwrites it in
    place, except for \<^verbatim>\<open>__proto__\<close>, whose setter ignores a value that is no object;
  \<^item> \<^verbatim>\<open>Object.entries\<close> lists the keys that are array indices first, in ascending
    numeric order, and then the other keys in creation order.
\<close>

datatype jsval = Undefined | Num number | Str | Obj

type_synonym jsobject = "(string \<times> jsval) list"

definition objectPrototype_keys :: "string list" where
  "objectPrototype_keys =
     [''constructor'', ''__proto__'', ''__defineGetter__'', ''__defineSetter__'',
      ''__lookupGetter__'', ''__lookupSetter__'', ''hasOwnProperty'', ''isPrototypeOf'',
      ''propertyIsEnumerable'', ''toLocaleString'', ''toString'', ''valueOf'']"

definition get_prop :: "jsobject \<Rightarrow> string \<Rightarrow> jsval" where
  "get_prop obj k =
     (case map_of obj k of
        Some v \<Rightarrow> v
      | None \<Rightarrow> if k \<in> set objectPrototype_keys then Obj else Undefined)"

fun put_prop :: "string \<Rightarrow> jsval \<Rightarrow> jsobject \<Rightarrow> jsobject" where
  "put_prop k v [] = [(k, v)]"
| "put_prop k v (p # ps) = (if fst p = k then (k, v) # ps else p # put_prop k v ps)"

definition set_prop :: "jsobject \<Rightarrow> string \<Rightarrow> jsval \<Rightarrow> jsobject" where
  "set_prop obj k v = (if k = ''__proto__'' then obj else put_prop k v obj)"

fun falsy :: "jsval \<Rightarrow> bool" where
  "falsy Undefined = True"
| "falsy (Num n) = (n = NaN \<or> n = Finite 0)"
| "falsy Str = False"
| "falsy Obj = False"

text \<open>\<^verbatim>\<open>v + n\<close> for a number \<open>n\<close>: addition of numbers, concatenation otherwise.\<close>

fun js_plus :: "jsval \<Rightarrow> number \<Rightarrow> jsval" where
  "js_plus (Num m) n = Num (num_add m n)"
| "js_plus Undefined n = Num NaN"
| "js_plus Str n = Str"
| "js_plus Obj n = Str"

fun toNumber :: "jsval \<Rightarrow> number" where
  "toNumber (Num n) = n"
| "toNumber _ = NaN"

definition isDigit :: "char \<Rightarrow> bool" where
  "isDigit c \<longleftrightarrow> 48 \<le> (of_char c :: nat) \<and> (of_char c :: nat) \<le> 57"

definition digits_value :: "string \<Rightarrow> int" where
  "digits_value s = foldl (\<lambda>n c. 10 * n + (of_char c - 48)) 0 s"

text \<open>An array index: the canonical decimal string of an integer below \<open>2^32 - 1\<close>.\<close>

definition isArrayIndex :: "string \<Rightarrow> bool" where
  "isArrayIndex s \<longleftrightarrow>
     s \<noteq> [] \<and> list_all isDigit s \<and> (s = ''0'' \<or> hd s \<noteq> CHR ''0'') \<and>
     digits_value s < 4294967295"

definition Object_entries :: "jsobject \<Rightarrow> (string \<times> jsval) list" where
  "Object_entries obj =
     sort_key (\<lambda>p. digits_value (fst p)) (filter (\<lambda>p. isArrayIndex (fst p)) obj) @
     filter (\<lambda>p. \<not> isArrayIndex (fst p)) obj"

definition group_step :: "jsobject \<Rightarrow> transaction \<Rightarrow> jsobject" where
  "group_step categories t =
     (let cat = category t;
          amnt = num_abs (amount t);
          categories1 = (if falsy (get_prop categories cat)
                         then set_prop categories cat (Num (Finite 0)) else categories)
      in set_prop categories1 cat (js_plus (get_prop categories1 cat) amnt))"

text \<open>
  One progress bar of the summary: the category, the amount handed to
  \<^verbatim>\<open>formatCurrency\<close> and the percentage.
\<close>

record category_bar =
  bar_category :: string
  bar_amount :: jsval
  bar_percentage :: number

definition percentage_of :: "number \<Rightarrow> jsval \<Rightarrow> number" where
  "percentage_of totalExpenses amnt =
     (if num_gt totalExpenses (Finite 0)
      then num_mul (num_div (toNumber amnt) totalExpenses) (Finite 100)
      else Finite 0)"

definition updateSpendingSummary :: "transaction list \<Rightarrow> category_bar list" where
  "updateSpendingSummary ts =
     (let expenseTransactions = filter (\<lambda>t. type t = ''expense'') ts in
      if expenseTransactions = [] then []
      else
        let totalExpenses =
              foldl (\<lambda>sum t. num_add sum (num_abs (amount t))) (Finite 0) expenseTransactions;
            categories = foldl group_step [] expenseTransactions
        in map (\<lambda>(cat, amnt).
                  \<lparr>bar_category = cat, bar_amount = amnt,
                   bar_percentage = percentage_of totalExpenses amnt\<rparr>)
               (Object_entries categories))"

subsection \<open>Notions used in the statements\<close>

text \<open>A finite number, as \<^verbatim>\<open>isFinite\<close> decides it.\<close>

definition isFinite :: "number \<Rightarrow> bool" where
  "isFinite n \<longleftrightarrow> (case n of Finite _ \<Rightarrow> True | _ \<Rightarrow> False)"

text \<open>
  A transaction as \<^verbatim>\<open>addTransaction\<close> builds it: the amount is a number and the type
  follows its sign.
\<close>

definition wellformed :: "transaction \<Rightarrow> bool" where
  "wellformed t \<longleftrightarrow> \<not> isNaN (amount t) \<and> type t = typeOf (amount t)"

text \<open>
  States whose transactions, in memory and in the store, are all well-formed, and
  operations that bring only well-formed records in (the records an earlier session
  persisted).
\<close>

definition wellformed_state :: "state \<Rightarrow> bool" where
  "wellformed_state st \<longleftrightarrow>
     list_all wellformed (transactions st) \<and>
     (case db st of None \<Rightarrow> True | Some rs \<Rightarrow> list_all wellformed rs)"

fun wellformed_op :: "operation \<Rightarrow> bool" where
  "wellformed_op (Open req persisted) = list_all wellformed persisted"
| "wellformed_op _ = True"

text \<open>\<open>p\<close> occurs in \<open>s\<close> as a contiguous substring.\<close>

definition is_substring :: "string \<Rightarrow> string \<Rightarrow> bool" where
  "is_substring p s \<longleftrightarrow> (\<exists>pre post. s = pre @ p @ post)"






subsection \<open>Auxiliary notions for the spending summary\<close>




subsection \<open>Sample data\<close>

definition opened :: state where
  "opened = \<lparr>transactions = [], filteredTransactions = [], db = Some []\<rparr>"

definition groceries :: transaction where
  "groceries = \<lparr>id' = 3, name = ''Groceries'', amount = Finite (- 150), category = ''Food'',
                 date = 3, type = ''expense''\<rparr>"

definition rent :: transaction where
  "rent = \<lparr>id' = 2, name = ''Rent'', amount = Finite (- 1200), category = ''Rent'',
            date = 2, type = ''expense''\<rparr>"

definition salary :: transaction where
  "salary = \<lparr>id' = 1, name = ''Salary'', amount = Finite 3500, category = ''Income'',
              date = 1, type = ''income''\<rparr>"


definition gift :: transaction where
  "gift = \<lparr>id' = 2001 / 2, name = ''Gift'', amount = Finite 5, category = ''Other'',
            date = 1000, type = ''income''\<rparr>"



definition sample :: "transaction list" where
  "sample = [groceries, rent, salary]"

definition loaded :: state where
  "loaded = \<lparr>transactions = sample, filteredTransactions = sample,
             db = Some [salary, rent, groceries]\<rparr>"

definition session :: "operation list" where
  "session =
     [Open onsuccess [], Load onsuccess,
      Add 1000 (1 / 2) 1000 onsuccess ''Rent'' (Finite (- 1200)) ''Rent'',
      Add 2000 (1 / 4) 2000 onsuccess ''Groceries'' (Finite (- 150)) ''Food'',
      Filter ''food'',
      Add 3000 (1 / 8) 3000 onsuccess ''Salary'' (Finite 3500) ''Income'']"

section \<open>Properties\<close>

subsection \<open>Numbers\<close>

lemma overflow_threshold_large: "2 ^ 969 < overflow_threshold"
proof -
  have "(2::rat) ^ 1024 = 2 ^ 970 * 2 ^ 54"
    by (simp flip: power_add)
  then have "overflow_threshold = 2 ^ 970 * (2 ^ 54 - 1)"
    by (simp add: overflow_threshold_def algebra_simps)
  moreover have "(2::rat) ^ 970 * 1 \<le> 2 ^ 970 * (2 ^ 54 - 1)"
    by (intro mult_left_mono) simp_all
  moreover have "(2::rat) ^ 969 < 2 ^ 970"
    by (intro power_strict_increasing) simp_all
  ultimately show ?thesis by simp
qed

lemma finite_result_small:
  assumes "\<bar>r\<bar> \<le> 2 ^ 64"
  shows "finite_result r = Finite r"
proof -
  have "(2::rat) ^ 64 < 2 ^ 969"
    by (intro power_strict_increasing) simp_all
  then have "\<bar>r\<bar> < overflow_threshold"
    using assms overflow_threshold_large by linarith
  then show ?thesis
    by (auto simp: finite_result_def)
qed

lemma finite_result_nonneg: "0 \<le> r \<Longrightarrow> num_ge (finite_result r) (Finite 0)"
proof -
  assume "0 \<le> r"
  moreover have "(0::rat) < 2 ^ 969" by simp
  ultimately have "\<not> r \<le> - overflow_threshold"
    using overflow_threshold_large by linarith
  then show ?thesis
    using \<open>0 \<le> r\<close> by (simp add: finite_result_def)
qed

lemma num_add_nonneg:
  "num_ge a (Finite 0) \<Longrightarrow> num_ge b (Finite 0) \<Longrightarrow> num_ge (num_add a b) (Finite 0)"
  by (cases a; cases b) (simp_all add: finite_result_nonneg)

lemma num_abs_nonneg: "\<not> isNaN a \<Longrightarrow> num_ge (num_abs a) (Finite 0)"
  by (cases a) simp_all


subsection \<open>The adapter\<close>

lemma saveTransaction_ok:
  "db st = Some rs \<Longrightarrow>
   saveTransaction onsuccess t st = (Inr (), st\<lparr>db := Some (store_put t rs)\<rparr>)"
  by (simp add: saveTransaction_def)

lemma saveTransaction_fails:
  "db st = None \<or> req = onerror \<Longrightarrow>
   saveTransaction req t st =
     (Inl (if db st = None then NotInitialized else RequestError), st)"
  by (auto simp: saveTransaction_def split: option.splits request_result.splits)

lemma deleteTransaction_ok:
  "db st = Some rs \<Longrightarrow>
   deleteTransaction onsuccess k st = (Inr (), st\<lparr>db := Some (store_delete k rs)\<rparr>)"
  by (simp add: deleteTransaction_def)

lemma deleteTransaction_fails:
  "db st = None \<or> req = onerror \<Longrightarrow>
   deleteTransaction req k st =
     (Inl (if db st = None then NotInitialized else RequestError), st)"
  by (auto simp: deleteTransaction_def split: option.splits request_result.splits)

lemma clearAllTransactionsFromDB_ok:
  "db st = Some rs \<Longrightarrow> clearAllTransactionsFromDB onsuccess st = (Inr (), st\<lparr>db := Some []\<rparr>)"
  by (simp add: clearAllTransactionsFromDB_def)

lemma clearAllTransactionsFromDB_fails:
  "db st = None \<or> req = onerror \<Longrightarrow>
   clearAllTransactionsFromDB req st =
     (Inl (if db st = None then NotInitialized else RequestError), st)"
  by (auto simp: clearAllTransactionsFromDB_def split: option.splits request_result.splits)

lemma trim_Gift: "trim ''Gift'' \<noteq> []"
  by (simp add: trim_def isWhiteSpace_def)

subsection \<open>Well-formed transactions\<close>

lemma set_store_put: "set (store_put t rs) \<subseteq> insert t (set rs)"
  by (induction rs) auto

lemma set_insert_by: "set (insert_by cmp x ys) = insert x (set ys)"
  by (induction ys) auto

lemma set_array_sort: "set (array_sort cmp xs) = set xs"
  by (induction xs) (simp_all add: array_sort_def set_insert_by)

lemma wellformed_built:
  "\<not> isNaN amnt \<Longrightarrow>
   wellformed \<lparr>id' = k, name = nm, amount = amnt, category = cat, date = d, type = typeOf amnt\<rparr>"
  by (simp add: wellformed_def)

lemma wellformed_state_saveTransaction:
  assumes "wellformed_state st" and "wellformed t"
  shows "wellformed_state (snd (saveTransaction req t st))"
proof (cases "db st")
  case None
  then show ?thesis using assms by (simp add: saveTransaction_def)
next
  case (Some rs)
  then have "list_all wellformed rs"
    using assms(1) by (simp add: wellformed_state_def)
  then have "list_all wellformed (store_put t rs)"
    using assms(2) set_store_put [of t rs] by (auto simp: list_all_iff)
  then show ?thesis
    using assms(1) Some
    by (cases req) (simp_all add: saveTransaction_def wellformed_state_def)
qed

lemma transactions_saveTransaction:
  "saveTransaction req t st = (r, st') \<Longrightarrow> transactions st' = transactions st"
  by (auto simp: saveTransaction_def split: option.splits request_result.splits)

lemma wellformed_state_addTransaction:
  assumes "wellformed_state st"
  shows "wellformed_state (snd (addTransaction now rnd today req nameRaw amnt cat st))"
proof (cases "trim nameRaw = [] \<or> isNaN amnt \<or> cat = []")
  case True
  then show ?thesis
    using assms by (auto simp: addTransaction_def Let_def)
next
  case False
  define t where "t = \<lparr>id' = of_int now + rnd, name = trim nameRaw, amount = amnt,
      category = cat, date = today, type = typeOf amnt\<rparr>"
  have t: "wellformed t"
    unfolding t_def using False by (simp add: wellformed_built)
  have saved: "wellformed_state (snd (saveTransaction req t st))"
    using assms t by (rule wellformed_state_saveTransaction)
  have "snd (addTransaction now rnd today req nameRaw amnt cat st) =
      (case fst (saveTransaction req t st) of
         Inl e \<Rightarrow> snd (saveTransaction req t st)
       | Inr u \<Rightarrow> (snd (saveTransaction req t st))
           \<lparr>transactions := t # transactions st, filteredTransactions := t # transactions st\<rparr>)"
    using False
    by (auto simp: addTransaction_def Let_def t_def [symmetric]
        dest: transactions_saveTransaction split: prod.splits sum.splits)
  then show ?thesis
    using saved t assms
    by (auto simp: wellformed_state_def split: sum.splits)
qed

lemma wellformed_state_apply_op:
  assumes "wellformed_state st" and "wellformed_op op"
  shows "wellformed_state (apply_op op st)"
proof (cases op)
  case (Open req persisted)
  then show ?thesis
    using assms
    by (auto simp: wellformed_state_def initIndexedDB_def split: request_result.splits)
next
  case (Load req)
  then show ?thesis
    using assms
    by (auto simp: wellformed_state_def loadTransactions_def Let_def list_all_iff set_array_sort
        split: option.splits request_result.splits)
next
  case (Add now rnd today req nameRaw amnt cat)
  then show ?thesis
    using assms by (simp add: wellformed_state_addTransaction)
next
  case (Remove confirmed req k)
  then show ?thesis
    using assms
    by (auto simp: wellformed_state_def deleteButton_onclick_def deleteTransaction_def
        store_delete_def list_all_iff split: option.splits request_result.splits)
next
  case (ClearAll req)
  then show ?thesis
    using assms
    by (auto simp: wellformed_state_def clearAllTransactions_def clearAllTransactionsFromDB_def
        split: option.splits request_result.splits)
next
  case (Filter query)
  then show ?thesis
    using assms by (auto simp: wellformed_state_def filterTransactions_def Let_def)
qed

lemma wellformed_state_run:
  "wellformed_state st \<Longrightarrow> \<forall>op \<in> set ops. wellformed_op op \<Longrightarrow>
   wellformed_state (run ops st)"
  unfolding run_def
  by (induction ops arbitrary: st) (simp_all add: wellformed_state_apply_op)

text \<open>
  Every transaction of the in-memory list is well-formed in every state the application
  reaches, when the records found in the database at opening are.
\<close>

lemma reachable_wellformed:
  assumes "\<forall>op \<in> set ops. wellformed_op op"
  shows "\<forall>t \<in> set (transactions (run ops initial_state)). wellformed t"
proof -
  have "wellformed_state initial_state"
    by (simp add: wellformed_state_def initial_state_def)
  then have "wellformed_state (run ops initial_state)"
    using assms by (rule wellformed_state_run)
  then show ?thesis
    by (simp add: wellformed_state_def list_all_iff)
qed

subsection \<open>Adding\<close>

text \<open>
  C1. For a valid input (the trimmed name is not empty, the amount is not NaN, the
  category is not empty) and a store write that succeeds, \<^verbatim>\<open>addTransaction\<close> builds a
  transaction with the trimmed name, the amount and the category; its type is
  \<^verbatim>\<open>income\<close> when \<^verbatim>\<open>amount >= 0\<close>, zero included, and \<^verbatim>\<open>expense\<close> otherwise. The
  in-memory list grows by exactly one element, and the new transaction is its first
  element. The record is in the store as well.
\<close>

theorem addTransaction_success:
  assumes "trim nameRaw \<noteq> []" and "\<not> isNaN amnt" and "cat \<noteq> []"
    and "db st = Some rs"
  shows "\<exists>t st'. addTransaction now rnd today onsuccess nameRaw amnt cat st = (Inr t, st') \<and>
           name t = trim nameRaw \<and> amount t = amnt \<and> category t = cat \<and>
           type t = (if num_ge amnt (Finite 0) then ''income'' else ''expense'') \<and>
           length (transactions st') = length (transactions st) + 1 \<and>
           transactions st' = t # transactions st \<and>
           db st' = Some (store_put t rs)"
  using assms
  by (simp add: addTransaction_def Let_def saveTransaction_ok typeOf_def)

theorem addTransaction_success_witness:
  "trim ''Gift'' \<noteq> [] \<and> \<not> isNaN (Finite 0) \<and> ''Other'' \<noteq> [] \<and> db opened = Some [] \<and>
   (\<exists>t st'. addTransaction 1000 (1 / 2) 1000 onsuccess ''Gift'' (Finite 0) ''Other'' opened
               = (Inr t, st') \<and>
      type t = ''income'' \<and> transactions st' = [t] \<and> length (transactions st') = 1)"
proof -
  have d: "db opened = Some []" by (simp add: opened_def)
  have n: "\<not> isNaN (Finite 0)" by simp
  have c: "''Other'' \<noteq> []" by simp
  show ?thesis
    using addTransaction_success [OF trim_Gift n c d, of 1000 "1 / 2" 1000] trim_Gift d
    by (auto simp: opened_def)
qed

text \<open>
  C3, as the code has it. \<^verbatim>\<open>addTransaction\<close> reports a validation error exactly when
  the trimmed name is empty, the amount is NaN or the category is empty; it then leaves
  the whole state, in-memory lists and store, as it was. An infinite amount passes the
  validation: the check is \<^verbatim>\<open>isNaN\<close>, not \<^verbatim>\<open>isFinite\<close>.
\<close>

theorem addTransaction_validation:
  "(fst (addTransaction now rnd today req nameRaw amnt cat st) = Inl ValidationError
      \<longleftrightarrow> trim nameRaw = [] \<or> isNaN amnt \<or> cat = []) \<and>
   (trim nameRaw = [] \<or> isNaN amnt \<or> cat = [] \<longrightarrow>
      addTransaction now rnd today req nameRaw amnt cat st = (Inl ValidationError, st))"
  by (auto simp: addTransaction_def Let_def split: prod.splits sum.splits)

theorem addTransaction_validation_witness:
  "trim [] = [] \<and>
   addTransaction 1000 (1 / 2) 1000 onsuccess [] (Finite 10) ''Food'' opened
     = (Inl ValidationError, opened)"
  using addTransaction_validation [of 1000 "1 / 2" 1000 onsuccess "[]" "Finite 10" "''Food''" opened]
  by (simp add: trim_def)

text \<open>
  The amount \<^verbatim>\<open>Infinity\<close> (\<^verbatim>\<open>parseFloat('Infinity')\<close>) is not finite, yet the add goes
  through: no validation error, and the list, empty before, has one element.
\<close>

theorem addTransaction_infinite_counterexample:
  "\<not> isFinite Infinity \<and>
   fst (addTransaction 1000 (1 / 2) 1000 onsuccess ''Gift'' Infinity ''Other'' opened)
     \<noteq> Inl ValidationError \<and>
   transactions opened = [] \<and>
   length (transactions
     (snd (addTransaction 1000 (1 / 2) 1000 onsuccess ''Gift'' Infinity ''Other'' opened))) = 1"
  by (simp add: isFinite_def addTransaction_def Let_def trim_def isWhiteSpace_def
      saveTransaction_def opened_def)

text \<open>
  C4, as the code has it. For a valid input, when the store write fails (no database
  handle, or the \<^verbatim>\<open>put\<close> request errors), \<^verbatim>\<open>addTransaction\<close> leaves the state unchanged,
  the in-memory list included. Its \<^verbatim>\<open>catch\<close> block takes the error the adapter rejected
  with, logs it and shows the error notification; the promise of \<^verbatim>\<open>addTransaction\<close>
  itself resolves, so the error does not reach its caller.
\<close>

theorem addTransaction_store_failure:
  assumes "trim nameRaw \<noteq> []" and "\<not> isNaN amnt" and "cat \<noteq> []"
    and "db st = None \<or> req = onerror"
  shows "addTransaction now rnd today req nameRaw amnt cat st =
           (Inl (StoreError (if db st = None then NotInitialized else RequestError)), st) \<and>
         addTransaction_promise now rnd today req nameRaw amnt cat st = Inr ()"
proof -
  have "addTransaction now rnd today req nameRaw amnt cat st =
      (Inl (StoreError (if db st = None then NotInitialized else RequestError)), st)"
    using assms(1-3) saveTransaction_fails [OF assms(4)]
    by (simp add: addTransaction_def Let_def)
  moreover have "addTransaction_promise now rnd today req nameRaw amnt cat st = Inr ()"
    by (simp add: addTransaction_promise_def Let_def split: sum.splits)
  ultimately show ?thesis by simp
qed

theorem addTransaction_store_failure_witness:
  "trim ''Gift'' \<noteq> [] \<and> \<not> isNaN (Finite 5) \<and> ''Other'' \<noteq> [] \<and>
   (db opened = None \<or> onerror = onerror) \<and>
   addTransaction 1000 (1 / 2) 1000 onerror ''Gift'' (Finite 5) ''Other'' opened
     = (Inl (StoreError RequestError), opened) \<and>
   addTransaction_promise 1000 (1 / 2) 1000 onerror ''Gift'' (Finite 5) ''Other'' opened = Inr ()"
proof -
  have n: "\<not> isNaN (Finite 5)" by simp
  have c: "''Other'' \<noteq> []" by simp
  have f: "db opened = None \<or> onerror = onerror" by simp
  show ?thesis
    using addTransaction_store_failure [OF trim_Gift n c f, of 1000 "1 / 2" 1000] trim_Gift
    by (simp add: opened_def)
qed

text \<open>
  The \<^verbatim>\<open>put\<close> of the gift is rejected with the request's error, and \<^verbatim>\<open>addTransaction\<close>
  reports it; yet the promise of \<^verbatim>\<open>addTransaction\<close> resolves: no error propagates to the
  caller.
\<close>

theorem addTransaction_caught_counterexample:
  "fst (saveTransaction onerror gift opened) = Inl RequestError \<and>
   fst (addTransaction 1000 (1 / 2) 1000 onerror ''Gift'' (Finite 5) ''Other'' opened) =
     Inl (StoreError RequestError) \<and>
   addTransaction_promise 1000 (1 / 2) 1000 onerror ''Gift'' (Finite 5) ''Other'' opened = Inr ()"
  by (simp add: addTransaction_def addTransaction_promise_def saveTransaction_def Let_def
      trim_def isWhiteSpace_def opened_def gift_def)

subsection \<open>Totals\<close>

lemma foldl_num_add_nonneg:
  "num_ge a (Finite 0) \<Longrightarrow> \<forall>n \<in> set ns. num_ge n (Finite 0) \<Longrightarrow>
   num_ge (foldl num_add a ns) (Finite 0)"
  by (induction ns arbitrary: a) (simp_all add: num_add_nonneg)

lemma foldl_totals_step:
  "foldl totals_step acc ts =
     \<lparr>income = foldl num_add (income acc) (map amount (filter (\<lambda>t. type t = ''income'') ts)),
      expense = foldl num_add (expense acc)
                  (map (\<lambda>t. num_abs (amount t)) (filter (\<lambda>t. type t \<noteq> ''income'') ts))\<rparr>"
  by (induction ts arbitrary: acc) (simp_all add: totals_step_def)

lemma wellformed_income:
  "wellformed t \<Longrightarrow> type t = ''income'' \<Longrightarrow> num_ge (amount t) (Finite 0)"
  by (simp add: wellformed_def typeOf_def split: if_splits)

lemma wellformed_sample: "\<forall>t \<in> set sample. wellformed t"
  by (simp add: sample_def groceries_def rent_def salary_def wellformed_def typeOf_def)

text \<open>
  C2. For well-formed transactions (the amount is a number and the type follows its
  sign, as in every state the application reaches), \<^verbatim>\<open>updateBalance\<close> computes the
  income as the sum of the amounts of the \<^verbatim>\<open>income\<close> transactions, the expense as the
  sum of the absolute amounts of all others, and the balance as income minus expense;
  income and expense are both at least zero.
\<close>

theorem updateBalance_totals:
  assumes "\<forall>t \<in> set ts. wellformed t"
  shows "totalBalance (updateBalance ts) =
           num_sub (totalIncome (updateBalance ts)) (totalExpense (updateBalance ts)) \<and>
         totalIncome (updateBalance ts) =
           num_sum (map amount (filter (\<lambda>t. type t = ''income'') ts)) \<and>
         totalExpense (updateBalance ts) =
           num_sum (map (\<lambda>t. num_abs (amount t)) (filter (\<lambda>t. type t \<noteq> ''income'') ts)) \<and>
         num_ge (totalIncome (updateBalance ts)) (Finite 0) \<and>
         num_ge (totalExpense (updateBalance ts)) (Finite 0)"
proof -
  have inc: "totalIncome (updateBalance ts) =
      num_sum (map amount (filter (\<lambda>t. type t = ''income'') ts))"
    by (simp add: updateBalance_def Let_def foldl_totals_step num_sum_def)
  have exp: "totalExpense (updateBalance ts) =
      num_sum (map (\<lambda>t. num_abs (amount t)) (filter (\<lambda>t. type t \<noteq> ''income'') ts))"
    by (simp add: updateBalance_def Let_def foldl_totals_step num_sum_def)
  have bal: "totalBalance (updateBalance ts) =
      num_sub (totalIncome (updateBalance ts)) (totalExpense (updateBalance ts))"
    by (simp add: updateBalance_def Let_def)
  have "num_ge (num_sum (map amount (filter (\<lambda>t. type t = ''income'') ts))) (Finite 0)"
    unfolding num_sum_def using assms
    by (intro foldl_num_add_nonneg) (auto simp: wellformed_income)
  moreover have "num_ge (num_sum (map (\<lambda>t. num_abs (amount t))
      (filter (\<lambda>t. type t \<noteq> ''income'') ts))) (Finite 0)"
    unfolding num_sum_def using assms
    by (intro foldl_num_add_nonneg) (auto simp: wellformed_def num_abs_nonneg)
  ultimately show ?thesis using inc exp bal by simp
qed

theorem updateBalance_totals_witness:
  "list_all wellformed sample \<and>
   totalIncome (updateBalance sample) = Finite 3500 \<and>
   totalExpense (updateBalance sample) = Finite 1350 \<and>
   totalBalance (updateBalance sample) = Finite 2150 \<and>
   num_ge (totalIncome (updateBalance sample)) (Finite 0) \<and>
   num_ge (totalExpense (updateBalance sample)) (Finite 0)"
proof -
  have "list_all wellformed sample"
    using wellformed_sample by (simp add: list_all_iff)
  then show ?thesis
    using updateBalance_totals [OF wellformed_sample]
    by (simp add: sample_def groceries_def rent_def salary_def num_sum_def num_sub_def
        finite_result_small)
qed

subsection \<open>Filtering\<close>

lemma startsWith_iff: "startsWith s p \<longleftrightarrow> (\<exists>post. s = p @ post)"
  by (induction s p rule: startsWith.induct) auto

lemma includes_str_iff: "includes_str s p \<longleftrightarrow> is_substring p s"
proof (induction s)
  case Nil
  then show ?case by (simp add: is_substring_def)
next
  case (Cons c s)
  show ?case
  proof
    assume "includes_str (c # s) p"
    then consider "startsWith (c # s) p" | "includes_str s p" by auto
    then show "is_substring p (c # s)"
    proof cases
      case 1
      then obtain post where "c # s = p @ post" using startsWith_iff by blast
      then have "c # s = [] @ p @ post" by simp
      then show ?thesis unfolding is_substring_def by blast
    next
      case 2
      then obtain pre post where "s = pre @ p @ post"
        using Cons.IH by (auto simp: is_substring_def)
      then have "c # s = (c # pre) @ p @ post" by simp
      then show ?thesis unfolding is_substring_def by blast
    qed
  next
    assume "is_substring p (c # s)"
    then obtain pre post where eq: "c # s = pre @ p @ post"
      by (auto simp: is_substring_def)
    show "includes_str (c # s) p"
    proof (cases pre)
      case Nil
      then have "startsWith (c # s) p" using eq startsWith_iff by auto
      then show ?thesis by simp
    next
      case (Cons d pre')
      then have "s = pre' @ p @ post" using eq by simp
      then have "is_substring p s" unfolding is_substring_def by blast
      then show ?thesis using Cons.IH by simp
    qed
  qed
qed

lemma is_substring_Nil: "is_substring [] s"
  unfolding is_substring_def by auto

lemma matches_iff:
  "matches q t \<longleftrightarrow>
     is_substring q (toLowerCase (name t)) \<or> is_substring q (toLowerCase (category t)) \<or>
     is_substring q (toLowerCase (type t))"
  by (simp add: matches_def includes_str_iff)

text \<open>
  C7, as the code has it. The search term is the query lower-cased and then trimmed.
  \<^verbatim>\<open>filterTransactions\<close> sets the filtered view to exactly the transactions of the full
  list, in their order, whose lower-cased name, category or type contains the search
  term as a substring; a query that is empty after trimming gives the full list. The
  full list is left as it is, and the result does not depend on the previous filtered
  view.
\<close>

theorem filterTransactions_result:
  "filteredTransactions (filterTransactions query st) =
     filter (\<lambda>t. is_substring (trim (toLowerCase query)) (toLowerCase (name t)) \<or>
                 is_substring (trim (toLowerCase query)) (toLowerCase (category t)) \<or>
                 is_substring (trim (toLowerCase query)) (toLowerCase (type t)))
       (transactions st) \<and>
   (trim (toLowerCase query) = [] \<longrightarrow>
      filteredTransactions (filterTransactions query st) = transactions st) \<and>
   transactions (filterTransactions query st) = transactions st \<and>
   filterTransactions query (st\<lparr>filteredTransactions := previous\<rparr>) = filterTransactions query st"
  by (simp add: filterTransactions_def Let_def matches_iff [abs_def] is_substring_Nil)

theorem filterTransactions_result_witness:
  "trim (toLowerCase [CHR '' '']) = [] \<and>
   filteredTransactions (filterTransactions [CHR '' ''] loaded) = transactions loaded \<and>
   filteredTransactions (filterTransactions ''food'' loaded) = [groceries] \<and>
   filterTransactions ''food'' (loaded\<lparr>filteredTransactions := [rent]\<rparr>) =
     filterTransactions ''food'' loaded"
proof -
  have blank: "trim (toLowerCase [CHR '' '']) = []"
    by (simp add: trim_def isWhiteSpace_def toLowerCase_def toLowerCase_char_def)
  have full: "filteredTransactions (filterTransactions [CHR '' ''] loaded) = transactions loaded"
    using filterTransactions_result [of "[CHR '' '']" loaded "[rent]"] blank by blast
  have food: "filteredTransactions (filterTransactions ''food'' loaded) = [groceries]"
    by (simp add: trim_def isWhiteSpace_def toLowerCase_def toLowerCase_char_def
        filterTransactions_def matches_def loaded_def sample_def groceries_def rent_def
        salary_def)
  have base: "filterTransactions ''food'' (loaded\<lparr>filteredTransactions := [rent]\<rparr>) =
      filterTransactions ''food'' loaded"
    using filterTransactions_result [of "''food''" loaded "[rent]"] by blast
  from blank full food base show ?thesis by blast
qed

text \<open>
  The query \<^verbatim>\<open>'rent '\<close>, with a space at its end, is a substring of no field of the rent
  transaction, in any letter case; the filter returns that transaction all the same.
\<close>

theorem filterTransactions_trim_counterexample:
  "\<not> includes_str (toLowerCase (name rent)) (toLowerCase ''rent '') \<and>
   \<not> includes_str (toLowerCase (category rent)) (toLowerCase ''rent '') \<and>
   \<not> includes_str (toLowerCase (type rent)) (toLowerCase ''rent '') \<and>
   filteredTransactions (filterTransactions ''rent '' loaded) = [rent]"
  by (simp add: trim_def isWhiteSpace_def toLowerCase_def toLowerCase_char_def
      filterTransactions_def matches_def loaded_def sample_def groceries_def rent_def salary_def)

subsection \<open>Deleting and clearing\<close>

text \<open>
  C6, as the code has it. After the user confirms, the click handler first deletes the
  record from the store. When that fails, the whole state is unchanged and the error is
  reported. When it succeeds, the transaction is removed from the in-memory list and
  from the filtered view. For an id that is not in the in-memory list the handler
  reports success and leaves the list as it is: the code has no \<^verbatim>\<open>NotFoundError\<close>.
\<close>

theorem deleteButton_onclick_result:
  "(db st = None \<or> req = onerror \<longrightarrow>
      deleteButton_onclick True req k st =
        (Some (Inl (StoreError (if db st = None then NotInitialized else RequestError))), st)) \<and>
   (db st = Some rs \<longrightarrow>
      deleteButton_onclick True onsuccess k st =
        (Some (Inr ()),
         st\<lparr>transactions := filter (\<lambda>t. id' t \<noteq> k) (transactions st),
            filteredTransactions := filter (\<lambda>t. id' t \<noteq> k) (filteredTransactions st),
            db := Some (store_delete k rs)\<rparr>)) \<and>
   (db st = Some rs \<and> k \<notin> id' ` set (transactions st) \<longrightarrow>
      fst (deleteButton_onclick True onsuccess k st) = Some (Inr ()) \<and>
      transactions (snd (deleteButton_onclick True onsuccess k st)) = transactions st)"
proof -
  have fails: "db st = None \<or> req = onerror \<longrightarrow>
      deleteButton_onclick True req k st =
        (Some (Inl (StoreError (if db st = None then NotInitialized else RequestError))), st)"
    by (simp add: deleteButton_onclick_def deleteTransaction_fails)
  have ok: "db st = Some rs \<longrightarrow>
      deleteButton_onclick True onsuccess k st =
        (Some (Inr ()),
         st\<lparr>transactions := filter (\<lambda>t. id' t \<noteq> k) (transactions st),
            filteredTransactions := filter (\<lambda>t. id' t \<noteq> k) (filteredTransactions st),
            db := Some (store_delete k rs)\<rparr>)"
    by (simp add: deleteButton_onclick_def deleteTransaction_ok)
  have "filter (\<lambda>t. id' t \<noteq> k) (transactions st) = transactions st"
    if "k \<notin> id' ` set (transactions st)"
    using that by (auto simp: filter_id_conv)
  then have missing: "db st = Some rs \<and> k \<notin> id' ` set (transactions st) \<longrightarrow>
      fst (deleteButton_onclick True onsuccess k st) = Some (Inr ()) \<and>
      transactions (snd (deleteButton_onclick True onsuccess k st)) = transactions st"
    by (simp add: deleteButton_onclick_def deleteTransaction_ok)
  from fails ok missing show ?thesis by blast
qed

theorem deleteButton_onclick_result_witness:
  "db loaded = Some [salary, rent, groceries] \<and>
   deleteButton_onclick True onerror 2 loaded = (Some (Inl (StoreError RequestError)), loaded) \<and>
   fst (deleteButton_onclick True onsuccess 2 loaded) = Some (Inr ()) \<and>
   transactions (snd (deleteButton_onclick True onsuccess 2 loaded)) = [groceries, salary] \<and>
   db (snd (deleteButton_onclick True onsuccess 2 loaded)) = Some [salary, groceries]"
proof -
  have d: "db loaded = Some [salary, rent, groceries]"
    by (simp add: loaded_def)
  have "deleteButton_onclick True onerror 2 loaded =
      (Some (Inl (StoreError (if db loaded = None then NotInitialized else RequestError))), loaded)"
    using deleteButton_onclick_result [of loaded onerror 2 "[salary, rent, groceries]"] by blast
  then have e: "deleteButton_onclick True onerror 2 loaded =
      (Some (Inl (StoreError RequestError)), loaded)"
    using d by simp
  have "deleteButton_onclick True onsuccess 2 loaded =
      (Some (Inr ()),
       loaded\<lparr>transactions := filter (\<lambda>t. id' t \<noteq> 2) (transactions loaded),
          filteredTransactions := filter (\<lambda>t. id' t \<noteq> 2) (filteredTransactions loaded),
          db := Some (store_delete 2 [salary, rent, groceries])\<rparr>)"
    using deleteButton_onclick_result [of loaded onsuccess 2 "[salary, rent, groceries]"] d
    by blast
  then have "fst (deleteButton_onclick True onsuccess 2 loaded) = Some (Inr ())"
    and "transactions (snd (deleteButton_onclick True onsuccess 2 loaded)) = [groceries, salary]"
    and "db (snd (deleteButton_onclick True onsuccess 2 loaded)) = Some [salary, groceries]"
    by (simp_all add: loaded_def sample_def store_delete_def groceries_def rent_def salary_def)
  with d e show ?thesis by blast
qed

text \<open>
  Deleting the id \<open>7\<close>, which was never in the (empty) in-memory list: the handler
  reports success, not an error, and the state is unchanged.
\<close>

theorem deleteButton_onclick_missing_counterexample:
  "transactions opened = [] \<and>
   deleteButton_onclick True onsuccess 7 opened = (Some (Inr ()), opened)"
  by (simp add: deleteButton_onclick_def deleteTransaction_def store_delete_def opened_def)

text \<open>
  C8, as the code has it. \<^verbatim>\<open>clearAllTransactions\<close> clears the store and then empties the
  in-memory list and the filtered view. When the store clear fails (no database handle,
  or the \<^verbatim>\<open>clear\<close> request errors), store and lists are unchanged. The \<^verbatim>\<open>catch\<close> block
  takes the error the adapter rejected with, logs it and shows the error notification;
  the promise of \<^verbatim>\<open>clearAllTransactions\<close> itself resolves, so the error does not reach
  its caller.
\<close>

theorem clearAllTransactions_result:
  "(db st = Some rs \<longrightarrow>
      clearAllTransactions onsuccess st =
        (Inr (), st\<lparr>transactions := [], filteredTransactions := [], db := Some []\<rparr>)) \<and>
   (db st = None \<or> req = onerror \<longrightarrow>
      clearAllTransactions req st =
        (Inl (StoreError (if db st = None then NotInitialized else RequestError)), st) \<and>
      clearAllTransactions_promise req st = Inr ())"
  by (simp add: clearAllTransactions_def clearAllTransactions_promise_def
      clearAllTransactionsFromDB_ok clearAllTransactionsFromDB_fails)

theorem clearAllTransactions_result_witness:
  "db loaded = Some [salary, rent, groceries] \<and>
   clearAllTransactions onsuccess loaded = (Inr (), opened) \<and>
   clearAllTransactions onerror loaded = (Inl (StoreError RequestError), loaded) \<and>
   clearAllTransactions_promise onerror loaded = Inr ()"
proof -
  have d: "db loaded = Some [salary, rent, groceries]"
    by (simp add: loaded_def)
  have "clearAllTransactions onsuccess loaded =
      (Inr (), loaded\<lparr>transactions := [], filteredTransactions := [], db := Some []\<rparr>)"
    using clearAllTransactions_result [of loaded "[salary, rent, groceries]" onerror] d by blast
  then have ok: "clearAllTransactions onsuccess loaded = (Inr (), opened)"
    by (simp add: loaded_def opened_def)
  have "clearAllTransactions onerror loaded =
      (Inl (StoreError (if db loaded = None then NotInitialized else RequestError)), loaded)"
    and p: "clearAllTransactions_promise onerror loaded = Inr ()"
    using clearAllTransactions_result [of loaded "[salary, rent, groceries]" onerror] by blast+
  then have "clearAllTransactions onerror loaded = (Inl (StoreError RequestError), loaded)"
    using d by simp
  with d ok p show ?thesis by blast
qed

text \<open>
  The \<^verbatim>\<open>clear\<close> request is rejected with its error, and \<^verbatim>\<open>clearAllTransactions\<close> reports
  it; yet the promise of \<^verbatim>\<open>clearAllTransactions\<close> resolves: no error propagates to the
  caller.
\<close>

theorem clearAllTransactions_caught_counterexample:
  "fst (clearAllTransactionsFromDB onerror loaded) = Inl RequestError \<and>
   fst (clearAllTransactions onerror loaded) = Inl (StoreError RequestError) \<and>
   clearAllTransactions_promise onerror loaded = Inr ()"
  by (simp add: clearAllTransactions_def clearAllTransactions_promise_def
      clearAllTransactionsFromDB_def loaded_def)

subsection \<open>Loading\<close>





lemma initIndexedDB_sets_db:
  "initIndexedDB reqOpen persisted st = (Inr u, st') \<Longrightarrow> db st' = Some persisted"
  by (auto simp: initIndexedDB_def split: request_result.splits)

text \<open>
  The guard of \<^verbatim>\<open>loadTransactions\<close> for a missing database handle. It is not reached:
  \<^verbatim>\<open>init\<close> comes to its call of \<^verbatim>\<open>loadTransactions\<close> only after \<^verbatim>\<open>initIndexedDB\<close> has
  set \<^verbatim>\<open>db\<close>.
\<close>

lemma loadTransactions_without_db:
  "db st = None \<Longrightarrow>
   loadTransactions req st = (Inr (), st\<lparr>transactions := [], filteredTransactions := []\<rparr>)"
  by (simp add: loadTransactions_def)



subsection \<open>The filtered view\<close>

lemma view_within_initIndexedDB:
  "view_within st \<Longrightarrow> view_within (snd (initIndexedDB req persisted st))"
  by (simp add: view_within_def initIndexedDB_def split: request_result.splits)

lemma view_within_loadTransactions: "view_within (snd (loadTransactions req st))"
  by (simp add: view_within_def loadTransactions_def Let_def
      split: option.splits request_result.splits)

lemma view_within_addTransaction:
  "view_within st \<Longrightarrow>
   view_within (snd (addTransaction now rnd today req nameRaw amnt cat st))"
  by (auto simp: view_within_def addTransaction_def saveTransaction_def Let_def
      split: option.splits request_result.splits)

lemma view_within_deleteButton_onclick:
  "view_within st \<Longrightarrow> view_within (snd (deleteButton_onclick confirmed req k st))"
  by (auto simp: view_within_def deleteButton_onclick_def deleteTransaction_def
      split: option.splits request_result.splits)

lemma view_within_clearAllTransactions:
  "view_within st \<Longrightarrow> view_within (snd (clearAllTransactions req st))"
  by (auto simp: view_within_def clearAllTransactions_def clearAllTransactionsFromDB_def
      split: option.splits request_result.splits)

lemma view_within_filterTransactions: "view_within (filterTransactions query st)"
  by (auto simp: view_within_def filterTransactions_def Let_def)

lemma view_within_apply_op: "view_within st \<Longrightarrow> view_within (apply_op op st)"
  by (cases op)
    (simp_all add: view_within_initIndexedDB view_within_loadTransactions
      view_within_addTransaction view_within_deleteButton_onclick
      view_within_clearAllTransactions view_within_filterTransactions)

lemma view_within_run: "view_within st \<Longrightarrow> view_within (run ops st)"
  unfolding run_def
  by (induction ops arbitrary: st) (simp_all add: view_within_apply_op)

lemma addTransaction_resets_view:
  "fst (addTransaction now rnd today req nameRaw amnt cat st) = Inr t \<Longrightarrow>
   filteredTransactions (snd (addTransaction now rnd today req nameRaw amnt cat st)) =
     transactions (snd (addTransaction now rnd today req nameRaw amnt cat st))"
  by (auto simp: addTransaction_def saveTransaction_def Let_def
      split: option.splits request_result.splits if_splits)

text \<open>
  C10. In every state that a sequence of operations (open, load, add, delete, clear all,
  filter, each with any outcome of its store request) reaches from the initial state,
  every element of the filtered view is an element of the in-memory list; each
  operation preserves this. A successful add makes the filtered view equal to the full
  list, whatever filter was active.
\<close>

theorem filtered_view_invariant:
  "view_within (run ops initial_state) \<and>
   (view_within st \<longrightarrow> view_within (apply_op op st)) \<and>
   (fst (addTransaction now rnd today req nameRaw amnt cat st) = Inr t \<longrightarrow>
      filteredTransactions (snd (addTransaction now rnd today req nameRaw amnt cat st)) =
        transactions (snd (addTransaction now rnd today req nameRaw amnt cat st)))"
proof -
  have "view_within initial_state"
    by (simp add: view_within_def initial_state_def)
  then have "view_within (run ops initial_state)"
    by (rule view_within_run)
  then show ?thesis
    using view_within_apply_op [of st op]
      addTransaction_resets_view [of now rnd today req nameRaw amnt cat st t]
    by blast
qed

theorem filtered_view_invariant_witness:
  "view_within (run session initial_state) \<and>
   map name (filteredTransactions (run (butlast session) initial_state)) = [''Groceries''] \<and>
   map name (filteredTransactions (run session initial_state)) =
     [''Salary'', ''Groceries'', ''Rent''] \<and>
   view_within (loaded\<lparr>filteredTransactions := [groceries]\<rparr>) \<and>
   view_within (apply_op (Remove True onsuccess 3) (loaded\<lparr>filteredTransactions := [groceries]\<rparr>)) \<and>
   fst (addTransaction 1000 (1 / 2) 1000 onsuccess ''Gift'' (Finite 5) ''Other''
          (loaded\<lparr>filteredTransactions := [groceries]\<rparr>)) =
     Inr \<lparr>id' = 2001 / 2, name = ''Gift'', amount = Finite 5, category = ''Other'',
          date = 1000, type = ''income''\<rparr> \<and>
   filteredTransactions (snd (addTransaction 1000 (1 / 2) 1000 onsuccess ''Gift'' (Finite 5)
          ''Other'' (loaded\<lparr>filteredTransactions := [groceries]\<rparr>))) =
     transactions (snd (addTransaction 1000 (1 / 2) 1000 onsuccess ''Gift'' (Finite 5)
          ''Other'' (loaded\<lparr>filteredTransactions := [groceries]\<rparr>)))"
proof -
  let ?st = "loaded\<lparr>filteredTransactions := [groceries]\<rparr>"
  let ?t = "\<lparr>id' = 2001 / 2, name = ''Gift'', amount = Finite 5, category = ''Other'',
          date = 1000, type = ''income''\<rparr>"
  note inv = filtered_view_invariant [of session ?st "Remove True onsuccess 3"
      1000 "1 / 2" 1000 onsuccess "''Gift''" "Finite 5" "''Other''" ?t]
  have v: "view_within ?st"
    by (simp add: view_within_def loaded_def sample_def)
  have a: "fst (addTransaction 1000 (1 / 2) 1000 onsuccess ''Gift'' (Finite 5) ''Other'' ?st) = Inr ?t"
    by (simp add: addTransaction_def Let_def trim_def isWhiteSpace_def saveTransaction_def
        typeOf_def loaded_def)
  have before: "map name (filteredTransactions (run (butlast session) initial_state)) =
      [''Groceries'']"
    by (simp add: session_def run_def initial_state_def initIndexedDB_def loadTransactions_def
        array_sort_def addTransaction_def saveTransaction_def Let_def trim_def isWhiteSpace_def
        typeOf_def filterTransactions_def matches_def toLowerCase_def toLowerCase_char_def)
  have after: "map name (filteredTransactions (run session initial_state)) =
      [''Salary'', ''Groceries'', ''Rent'']"
    by (simp add: session_def run_def initial_state_def initIndexedDB_def loadTransactions_def
        array_sort_def addTransaction_def saveTransaction_def Let_def trim_def isWhiteSpace_def
        typeOf_def filterTransactions_def matches_def toLowerCase_def toLowerCase_char_def)
  from inv v a before after show ?thesis by blast
qed

subsection \<open>Spending summary\<close>






































text \<open>
  Why the categories must be plain keys: for a category named like a member of
  \<^verbatim>\<open>Object.prototype\<close> the lookup \<^verbatim>\<open>!categories[category]\<close> finds the inherited
  function, \<^verbatim>\<open>+=\<close> concatenates, and the bar shows a string and the percentage NaN.
\<close>

lemma summary_inherited_key:
  "updateSpendingSummary
     [\<lparr>id' = 5, name = ''Print'', amount = Finite (- 3), category = ''toString'',
       date = 5, type = ''expense''\<rparr>] =
     [\<lparr>bar_category = ''toString'', bar_amount = Str, bar_percentage = NaN\<rparr>]"
  by (simp add: updateSpendingSummary_def Let_def group_step_def get_prop_def set_prop_def
      Object_entries_def percentage_of_def objectPrototype_keys_def isArrayIndex_def
      isDigit_def finite_result_small)

end
